theory Spec2Isabelle
  imports Main
begin

section \<open>The Go library functions the binding calls\<close>

text \<open>
  A Go string is a sequence of bytes, here a \<^typ>\<open>string\<close> (a list of 8-bit characters).
  A Go \<open>int\<close> is a 64-bit signed integer; the binding only compares such values, so they
  are \<^typ>\<open>int\<close> here, and the one place where the width matters, the range error of
  \<open>strconv.Atoi\<close>, is written out.
\<close>

text \<open>
  \<open>strings.Split(s, sep)\<close> for a separator of one byte, which is how the binding calls it
  (\<open>"~"\<close>, \<open>"."\<close>, \<open>"-"\<close>): the pieces of \<open>s\<close> between the separators, always at least one
  piece (the empty string gives one empty piece).
\<close>

fun Split :: "string \<Rightarrow> char \<Rightarrow> string list" where
  "Split [] sep = [[]]"
| "Split (c # cs) sep =
     (if c = sep then [] # Split cs sep
      else (case Split cs sep of
              [] \<Rightarrow> [[c]]
            | p # ps \<Rightarrow> (c # p) # ps))"

definition HasPrefix :: "string \<Rightarrow> string \<Rightarrow> bool" where
  "HasPrefix s pre = (take (length pre) s = pre)"

definition HasSuffix :: "string \<Rightarrow> string \<Rightarrow> bool" where
  "HasSuffix s suf = (length suf \<le> length s \<and> drop (length s - length suf) s = suf)"

text \<open>
  \<open>strings.Replace(s, old, new, 1)\<close>: the first occurrence of \<open>old\<close> in \<open>s\<close> replaced by
  \<open>new\<close>; \<open>s\<close> itself when \<open>old\<close> does not occur.
\<close>

fun Replace1 :: "string \<Rightarrow> string \<Rightarrow> string \<Rightarrow> string" where
  "Replace1 [] old new = (if old = [] then new else [])"
| "Replace1 (c # cs) old new =
     (if HasPrefix (c # cs) old then new @ drop (length old) (c # cs)
      else c # Replace1 cs old new)"

definition is_digit :: "char \<Rightarrow> bool" where
  "is_digit c = (48 \<le> (of_char c :: nat) \<and> (of_char c :: nat) \<le> 57)"

text \<open>The digit loop of \<open>strconv.Atoi\<close>: \<open>n = n*10 + (ch - '0')\<close>, a syntax error on any other byte.\<close>

fun parse_digits :: "string \<Rightarrow> nat \<Rightarrow> nat option" where
  "parse_digits [] n = Some n"
| "parse_digits (ch # cs) n =
     (if is_digit ch then parse_digits cs (n * 10 + (of_char ch - 48)) else None)"

text \<open>
  \<open>strconv.Atoi\<close>: an optional sign, then at least one decimal digit and nothing else; a value
  outside the 64-bit range is an error. \<open>None\<close> is the error return.
\<close>

definition Atoi :: "string \<Rightarrow> int option" where
  "Atoi s =
     (case s of
        [] \<Rightarrow> None
      | c # cs \<Rightarrow>
          (let neg = (c = CHR ''-'');
               ds = (if c = CHR ''-'' \<or> c = CHR ''+'' then cs else s)
           in if ds = [] then None
              else (case parse_digits ds 0 of
                      None \<Rightarrow> None
                    | Some n \<Rightarrow>
                        (let v = (if neg then - int n else int n)
                         in if v < - (2 ^ 63) \<or> 2 ^ 63 - 1 < v then None else Some v))))"

section \<open>The runtime version comparison\<close>

text \<open>Lines 247 to 251: the text before the first \<open>~\<close>, with the display marker turned back.\<close>

definition strip_version :: "string \<Rightarrow> string" where
  "strip_version version =
     (let version = Split version (CHR ''~'') ! 0
      in Replace1 version '' (devel)'' ''-devel'')"

text \<open>Lines 260 to 264: the test on the last dot-separated part.\<close>

definition is_devel :: "string list \<Rightarrow> bool" where
  "is_devel parts =
     (let develParts = Split (parts ! (length parts - 1)) (CHR ''-'')
      in length develParts = 2 \<and> develParts ! 1 = ''devel'')"

text \<open>
  Lines 271 to 289: the loop over the parts, with the index \<open>i\<close> and the three variables
  \<open>maj\<close>, \<open>min\<close>, \<open>mic\<close> (here \<open>mjr\<close>, \<open>mnr\<close>, \<open>mcr\<close>: \<open>min\<close> is taken in HOL). \<open>None\<close> is the \<open>return false\<close> inside the loop.
\<close>

fun parse_parts :: "nat \<Rightarrow> string list \<Rightarrow> int \<times> int \<times> int \<Rightarrow> (int \<times> int \<times> int) option" where
  "parse_parts i [] acc = Some acc"
| "parse_parts i (v # vs) (mjr, mnr, mcr) =
     (if i > 2 then Some (mjr, mnr, mcr)
      else (case Atoi v of
              None \<Rightarrow> None
            | Some num \<Rightarrow>
                parse_parts (i + 1) vs
                  (if i = 0 then (num, mnr, mcr)
                   else if i = 1 then (mjr, num, mcr)
                   else if i = 2 then (mjr, mnr, num)
                   else (mjr, mnr, mcr))))"

text \<open>Lines 291 to 318: the chain of comparisons.\<close>

definition compare_version :: "int \<times> int \<times> int \<Rightarrow> int \<Rightarrow> int \<Rightarrow> int \<Rightarrow> bool" where
  "compare_version ord major minor micro =
     (case ord of (mjr, mnr, mcr) \<Rightarrow>
        if mjr > major then True
        else if mjr < major then False
        else if mnr > minor then True
        else if mnr < minor then False
        else if mcr > micro then True
        else if mcr < micro then False
        else True)"

text \<open>Line 254: the parts of the stripped version.\<close>

definition version_parts :: "string \<Rightarrow> string list" where
  "version_parts version = Split (strip_version version) (CHR ''.'')"

definition RuntimeLiblxcVersionAtLeast :: "string \<Rightarrow> int \<Rightarrow> int \<Rightarrow> int \<Rightarrow> bool" where
  "RuntimeLiblxcVersionAtLeast version major minor micro =
     (let parts = version_parts version;
          partsLen = length parts
      in if partsLen = 0 then False
         else if is_devel parts then True
         else (case parse_parts 0 parts (- 1, - 1, - 1) of
                 None \<Rightarrow> False
               | Some ord \<Rightarrow> compare_version ord major minor micro))"

section \<open>The runtime library and the handles\<close>

text \<open>
  The native library is outside the repository. Its entry points are the fields of a record;
  each takes the state of the system \<open>'w\<close> and returns its result with the state after the
  call, so that a container may appear or vanish between two calls. A C pointer that may be
  \<open>NULL\<close> is an \<open>option\<close>; the array of names a listing call writes is a list of strings.
  \<open>convertNArgs\<close> is the binding's own helper that turns that array into a slice; its file is
  not part of the sources at hand, so it is a field as well.
\<close>

record 'w liblxc =
  lxc_container_new :: "string \<Rightarrow> string option \<Rightarrow> 'w \<Rightarrow> nat option \<times> 'w"
  lxc_get_version :: "'w \<Rightarrow> string \<times> 'w"
  list_all_containers :: "string option \<Rightarrow> 'w \<Rightarrow> (int \<times> string list) \<times> 'w"
  list_defined_containers :: "string option \<Rightarrow> 'w \<Rightarrow> (int \<times> string list) \<times> 'w"
  list_active_containers :: "string option \<Rightarrow> 'w \<Rightarrow> (int \<times> string list) \<times> 'w"
  go_lxc_has_api_extension :: "string \<Rightarrow> 'w \<Rightarrow> bool \<times> 'w"
  convertNArgs :: "string list \<Rightarrow> int \<Rightarrow> string list"

text \<open>
  Modelled from the spec: the verbosity type is declared in a file that is not among the
  sources; the spec gives a handle "a verbosity/log-level setting (default: quiet)".
\<close>

datatype Verbosity = Quiet | Verbose

datatype error = ErrNewFailed

text \<open>The handle: the native pointer and the verbosity (the lock guards no value of the model).\<close>

record Container =
  container :: nat
  verbosity :: Verbosity

text \<open>
  A variadic \<open>lxcpath ...string\<close> is the list of the paths passed; no argument gives the nil
  slice, the empty list. Lines 32 to 39 (and 102 to 110, 138 to 146, 174 to 182): the path
  handed to the library. The source's \<open>size\<close> is \<open>count\<close> below (\<open>size\<close> is taken in HOL).
\<close>

definition NewContainer ::
  "'w liblxc \<Rightarrow> string \<Rightarrow> string list \<Rightarrow> 'w \<Rightarrow> (error + Container) \<times> 'w" where
  "NewContainer rt name lxcpath w =
     (case (if lxcpath \<noteq> [] \<and> length lxcpath = 1
            then lxc_container_new rt name (Some (lxcpath ! 0)) w
            else lxc_container_new rt name None w) of
        (None, w') \<Rightarrow> (Inl ErrNewFailed, w')
      | (Some p, w') \<Rightarrow> (Inr \<lparr>container = p, verbosity = Quiet\<rparr>, w'))"

text \<open>Lines 66 to 71 of \<open>Version\<close>, on the string the library returned.\<close>

definition Version_display :: "string \<Rightarrow> string" where
  "Version_display version =
     (if HasSuffix version ''-devel''
      then take (length version - length ''-devel'') version @ '' (devel)''
      else version)"

definition Version :: "'w liblxc \<Rightarrow> 'w \<Rightarrow> string \<times> 'w" where
  "Version rt w = (case lxc_get_version rt w of (version, w') \<Rightarrow> (Version_display version, w'))"

definition ContainerNames :: "'w liblxc \<Rightarrow> string list \<Rightarrow> 'w \<Rightarrow> string list \<times> 'w" where
  "ContainerNames rt lxcpath w =
     (case (if lxcpath \<noteq> [] \<and> length lxcpath = 1
            then list_all_containers rt (Some (lxcpath ! 0)) w
            else list_all_containers rt None w) of
        ((count, cnames), w') \<Rightarrow>
          if count < 1 then ([], w') else (convertNArgs rt cnames count, w'))"

definition DefinedContainerNames :: "'w liblxc \<Rightarrow> string list \<Rightarrow> 'w \<Rightarrow> string list \<times> 'w" where
  "DefinedContainerNames rt lxcpath w =
     (case (if lxcpath \<noteq> [] \<and> length lxcpath = 1
            then list_defined_containers rt (Some (lxcpath ! 0)) w
            else list_defined_containers rt None w) of
        ((count, cnames), w') \<Rightarrow>
          if count < 1 then ([], w') else (convertNArgs rt cnames count, w'))"

definition ActiveContainerNames :: "'w liblxc \<Rightarrow> string list \<Rightarrow> 'w \<Rightarrow> string list \<times> 'w" where
  "ActiveContainerNames rt lxcpath w =
     (case (if lxcpath \<noteq> [] \<and> length lxcpath = 1
            then list_active_containers rt (Some (lxcpath ! 0)) w
            else list_active_containers rt None w) of
        ((count, cnames), w') \<Rightarrow>
          if count < 1 then ([], w') else (convertNArgs rt cnames count, w'))"

text \<open>
  The loop of \<open>Containers\<close>, \<open>DefinedContainers\<close> and \<open>ActiveContainers\<close> (the same text three
  times in the source): over the names, appending to \<open>containers\<close> when \<open>err == nil\<close>.
\<close>

fun range_names ::
  "'w liblxc \<Rightarrow> string list \<Rightarrow> string list \<Rightarrow> Container list \<Rightarrow> 'w \<Rightarrow> Container list \<times> 'w" where
  "range_names rt [] lxcpath containers w = (containers, w)"
| "range_names rt (v # vs) lxcpath containers w =
     (case NewContainer rt v lxcpath w of
        (Inr c, w') \<Rightarrow> range_names rt vs lxcpath (containers @ [c]) w'
      | (Inl err, w') \<Rightarrow> range_names rt vs lxcpath containers w')"

definition Containers :: "'w liblxc \<Rightarrow> string list \<Rightarrow> 'w \<Rightarrow> Container list \<times> 'w" where
  "Containers rt lxcpath w =
     (case ContainerNames rt lxcpath w of (names, w') \<Rightarrow> range_names rt names lxcpath [] w')"

definition DefinedContainers :: "'w liblxc \<Rightarrow> string list \<Rightarrow> 'w \<Rightarrow> Container list \<times> 'w" where
  "DefinedContainers rt lxcpath w =
     (case DefinedContainerNames rt lxcpath w of
        (names, w') \<Rightarrow> range_names rt names lxcpath [] w')"

definition ActiveContainers :: "'w liblxc \<Rightarrow> string list \<Rightarrow> 'w \<Rightarrow> Container list \<times> 'w" where
  "ActiveContainers rt lxcpath w =
     (case ActiveContainerNames rt lxcpath w of
        (names, w') \<Rightarrow> range_names rt names lxcpath [] w')"

definition HasAPIExtension :: "'w liblxc \<Rightarrow> string \<Rightarrow> 'w \<Rightarrow> bool \<times> 'w" where
  "HasAPIExtension rt extension w =
     (case Version rt w of
        (version, w') \<Rightarrow>
          if RuntimeLiblxcVersionAtLeast version 3 1 0
          then go_lxc_has_api_extension rt extension w'
          else (False, w'))"

text \<open>
  What the handle-list functions are compared with: creation attempted for every name in
  turn, each outcome kept, failures included.
\<close>

fun attempt_each ::
  "'w liblxc \<Rightarrow> string list \<Rightarrow> string list \<Rightarrow> 'w \<Rightarrow> (error + Container) list \<times> 'w" where
  "attempt_each rt [] lxcpath w = ([], w)"
| "attempt_each rt (v # vs) lxcpath w =
     (case NewContainer rt v lxcpath w of
        (r, w') \<Rightarrow> (case attempt_each rt vs lxcpath w' of (rs, w'') \<Rightarrow> (r # rs, w'')))"

definition attempt_listed ::
  "'w liblxc \<Rightarrow> string list \<Rightarrow> string list \<times> 'w \<Rightarrow> (error + Container) list \<times> 'w" where
  "attempt_listed rt lxcpath listing = attempt_each rt (fst listing) lxcpath (snd listing)"

definition created :: "(error + Container) list \<Rightarrow> Container list" where
  "created rs = [c. Inr c \<leftarrow> rs]"

definition failed :: "(error + Container) list \<Rightarrow> error list" where
  "failed rs = [e. Inl e \<leftarrow> rs]"

text \<open>A concrete system for the examples: the state is the log of the native calls made.\<close>

definition demo_runtime :: "string \<Rightarrow> (string list) liblxc" where
  "demo_runtime ver =
     \<lparr>lxc_container_new = (\<lambda>name path w.
          (if name = ''b'' then None else Some (length w + 1), w @ [''lxc_container_new'' @ '' '' @ name])),
      lxc_get_version = (\<lambda>w. (ver, w @ [''lxc_get_version''])),
      list_all_containers = (\<lambda>path w.
          ((case path of None \<Rightarrow> 3 | Some p \<Rightarrow> - 1, [''a'', ''b'', ''c'']), w @ [''list_all_containers''])),
      list_defined_containers = (\<lambda>path w.
          ((case path of None \<Rightarrow> 3 | Some p \<Rightarrow> 0, [''a'', ''b'', ''c'']), w @ [''list_defined_containers''])),
      list_active_containers = (\<lambda>path w.
          ((case path of None \<Rightarrow> 3 | Some p \<Rightarrow> - 7, [''a'', ''b'', ''c'']), w @ [''list_active_containers''])),
      go_lxc_has_api_extension = (\<lambda>ext w. (True, w @ [''go_lxc_has_api_extension''])),
      convertNArgs = (\<lambda>cnames size. take (nat size) cnames)\<rparr>"

text \<open>Vocabulary of the statements below.\<close>


text \<open>A numeric component of a version: one decimal digit or more.\<close>

definition numeric :: "string \<Rightarrow> bool" where
  "numeric x = (x \<noteq> [] \<and> list_all is_digit x)"

text \<open>The path argument the library receives for a given list of paths.\<close>

definition chosen_path :: "string list \<Rightarrow> string option" where
  "chosen_path lxcpath = (if length lxcpath = 1 then Some (lxcpath ! 0) else None)"

section \<open>Facts about the library functions\<close>

lemma Split_nonempty: "Split s c \<noteq> []"
  by (induction s) (auto split: list.splits)

lemma Split_absent: "c \<notin> set s \<Longrightarrow> Split s c = [s]"
  by (induction s) auto

lemma Split_first: "c \<notin> set a \<Longrightarrow> Split (a @ c # b) c = a # Split b c"
  by (induction a) auto


section \<open>The version comparison\<close>

lemma compare_version_lex:
  "compare_version (mjr, mnr, mcr) major minor micro =
     (major < mjr \<or> (major = mjr \<and> (minor < mnr \<or> (minor = mnr \<and> micro \<le> mcr))))"
  by (auto simp: compare_version_def)

lemma version_parts_nonempty: "version_parts version \<noteq> []"
  by (simp add: version_parts_def Split_nonempty)

lemma atleast_unfold:
  "RuntimeLiblxcVersionAtLeast version major minor micro =
     (if is_devel (version_parts version) then True
      else (case parse_parts 0 (version_parts version) (- 1, - 1, - 1) of
              None \<Rightarrow> False
            | Some ord \<Rightarrow> compare_version ord major minor micro))"
  by (simp add: RuntimeLiblxcVersionAtLeast_def Let_def version_parts_nonempty)

text \<open>
  C1. When the version is not a development version and the loop parses it to
  \<open>(mjr, mnr, mcr)\<close>, the answer is true exactly when \<open>(mjr, mnr, mcr)\<close> is at least the
  requested triple in the lexicographic order: major first, then minor, then micro, equality
  counting as at least. \<open>3.1.0\<close> and \<open>4.0.0\<close> are at least 3.1.0; \<open>3.0.9\<close> is not.
\<close>

theorem atleast_is_lexicographic:
  assumes "\<not> is_devel (version_parts version)"
    and "parse_parts 0 (version_parts version) (- 1, - 1, - 1) = Some (mjr, mnr, mcr)"
  shows "RuntimeLiblxcVersionAtLeast version major minor micro =
           (major < mjr \<or> (major = mjr \<and> (minor < mnr \<or> (minor = mnr \<and> micro \<le> mcr))))
         \<and> RuntimeLiblxcVersionAtLeast ''3.1.0'' 3 1 0
         \<and> \<not> RuntimeLiblxcVersionAtLeast ''3.0.9'' 3 1 0
         \<and> RuntimeLiblxcVersionAtLeast ''4.0.0'' 3 1 0"
proof -
  have general: "RuntimeLiblxcVersionAtLeast version major minor micro =
           (major < mjr \<or> (major = mjr \<and> (minor < mnr \<or> (minor = mnr \<and> micro \<le> mcr))))"
    using assms by (simp add: atleast_unfold compare_version_lex)
  have a: "RuntimeLiblxcVersionAtLeast ''3.1.0'' 3 1 0" by code_simp
  have b: "\<not> RuntimeLiblxcVersionAtLeast ''3.0.9'' 3 1 0" by code_simp
  have c: "RuntimeLiblxcVersionAtLeast ''4.0.0'' 3 1 0" by code_simp
  from general a b c show ?thesis by blast
qed

theorem atleast_is_lexicographic_witness:
  "\<not> is_devel (version_parts ''3.0.9'')
   \<and> parse_parts 0 (version_parts ''3.0.9'') (- 1, - 1, - 1) = Some (3, 0, 9)
   \<and> RuntimeLiblxcVersionAtLeast ''3.0.9'' 3 0 10 = False
   \<and> RuntimeLiblxcVersionAtLeast ''3.0.9'' 2 7 11 = True"
proof -
  have h1: "\<not> is_devel (version_parts ''3.0.9'')" by code_simp
  have h2: "parse_parts 0 (version_parts ''3.0.9'') (- 1, - 1, - 1) = Some (3, 0, 9)"
    by code_simp
  show ?thesis
    using h1 h2 atleast_is_lexicographic [OF h1 h2, of 3 0 10]
      atleast_is_lexicographic [OF h1 h2, of 2 7 11]
    by simp
qed

section \<open>Parse failures\<close>

lemma parse_parts_fail:
  "i < length parts \<Longrightarrow> k + i < 3 \<Longrightarrow> Atoi (parts ! i) = None \<Longrightarrow> parse_parts k parts acc = None"
proof (induction k parts acc arbitrary: i rule: parse_parts.induct)
  case (1 i acc)
  then show ?case by simp
next
  case (2 k v vs mjr mnr mcr)
  show ?case
  proof (cases i)
    case 0
    with 2 show ?thesis by simp
  next
    case (Suc j)
    with 2 show ?thesis
      by (auto split: option.splits)
  qed
qed

lemma atleast_parse_failure:
  assumes "\<not> is_devel (version_parts version)"
    and "i < length (version_parts version)" and "i < 3"
    and "Atoi (version_parts version ! i) = None"
  shows "\<not> RuntimeLiblxcVersionAtLeast version major minor micro"
proof -
  have "parse_parts 0 (version_parts version) (- 1, - 1, - 1) = None"
    using assms(2-4) by (intro parse_parts_fail [where i = i]) simp_all
  with assms(1) show ?thesis by (simp add: atleast_unfold)
qed

text \<open>
  C2 (as amended). For a version that is not a development version: when any of the first
  three parts, the leading one or a later one, fails to parse as an integer, the answer is
  false for every requested triple, so no field is left unset by a failed parse. A field is
  left unset (\<open>-1\<close>) only when its part is missing, and the comparison then uses the fields
  that were parsed.
\<close>

theorem parse_failure_fails_comparison:
  assumes "\<not> is_devel (version_parts version)"
  shows "(i < 3 \<and> i < length (version_parts version) \<and> Atoi (version_parts version ! i) = None
            \<longrightarrow> \<not> RuntimeLiblxcVersionAtLeast version major minor micro)
       \<and> (version_parts version = [a] \<and> Atoi a = Some x
            \<longrightarrow> RuntimeLiblxcVersionAtLeast version major minor micro
                = compare_version (x, - 1, - 1) major minor micro)
       \<and> (version_parts version = [a, b] \<and> Atoi a = Some x \<and> Atoi b = Some y
            \<longrightarrow> RuntimeLiblxcVersionAtLeast version major minor micro
                = compare_version (x, y, - 1) major minor micro)"
proof (intro conjI impI)
  assume "i < 3 \<and> i < length (version_parts version) \<and> Atoi (version_parts version ! i) = None"
  then show "\<not> RuntimeLiblxcVersionAtLeast version major minor micro"
    using assms atleast_parse_failure by blast
next
  assume "version_parts version = [a] \<and> Atoi a = Some x"
  then show "RuntimeLiblxcVersionAtLeast version major minor micro
                = compare_version (x, - 1, - 1) major minor micro"
    using assms by (simp add: atleast_unfold)
next
  assume "version_parts version = [a, b] \<and> Atoi a = Some x \<and> Atoi b = Some y"
  then show "RuntimeLiblxcVersionAtLeast version major minor micro
                = compare_version (x, y, - 1) major minor micro"
    using assms by (simp add: atleast_unfold)
qed

theorem parse_failure_fails_comparison_witness:
  "\<not> is_devel (version_parts ''3.x.0'')
   \<and> Atoi (version_parts ''3.x.0'' ! 1) = None
   \<and> \<not> RuntimeLiblxcVersionAtLeast ''3.x.0'' 2 0 0
   \<and> \<not> is_devel (version_parts ''2'') \<and> version_parts ''2'' = [''2'']
   \<and> RuntimeLiblxcVersionAtLeast ''2'' 2 0 0 = compare_version (2, - 1, - 1) 2 0 0
   \<and> \<not> is_devel (version_parts ''2.1'') \<and> version_parts ''2.1'' = [''2'', ''1'']
   \<and> RuntimeLiblxcVersionAtLeast ''2.1'' 2 1 0 = compare_version (2, 1, - 1) 2 1 0"
proof -
  have d1: "\<not> is_devel (version_parts ''3.x.0'')" by code_simp
  have l1: "(1::nat) < 3 \<and> 1 < length (version_parts ''3.x.0'')" by code_simp
  have f1: "Atoi (version_parts ''3.x.0'' ! 1) = None" by code_simp
  have d2: "\<not> is_devel (version_parts ''2'')" by code_simp
  have p2: "version_parts ''2'' = [''2'']" by code_simp
  have d3: "\<not> is_devel (version_parts ''2.1'')" by code_simp
  have p3: "version_parts ''2.1'' = [''2'', ''1'']" by code_simp
  have a: "Atoi ''2'' = Some 2" "Atoi ''1'' = Some 1" by code_simp+
  have r1: "\<not> RuntimeLiblxcVersionAtLeast ''3.x.0'' 2 0 0"
    using parse_failure_fails_comparison [OF d1, of 1 2 0 0] l1 f1 by blast
  have r2: "RuntimeLiblxcVersionAtLeast ''2'' 2 0 0 = compare_version (2, - 1, - 1) 2 0 0"
    using parse_failure_fails_comparison [OF d2, of _ 2 0 0 "''2''" 2] p2 a by blast
  have r3: "RuntimeLiblxcVersionAtLeast ''2.1'' 2 1 0 = compare_version (2, 1, - 1) 2 1 0"
    using parse_failure_fails_comparison [OF d3, of _ 2 1 0 "''2''" 2 "''1''" 1] p3 a by blast
  from d1 f1 r1 d2 p2 r2 d3 p3 r3 show ?thesis by blast
qed

text \<open>
  C2 (as stated) fails at \<open>3.x.0\<close> against 2.0.0: the leading part parses to 3, the minor
  part does not parse, the comparison on the fields parsed, \<open>(3, -1, 0)\<close>, would hold, and
  the function answers false.
\<close>

theorem lenient_parse_counterexample:
  "version_parts ''3.x.0'' = [''3'', ''x'', ''0'']
   \<and> \<not> is_devel (version_parts ''3.x.0'')
   \<and> Atoi ''3'' = Some 3 \<and> Atoi ''x'' = None \<and> Atoi ''0'' = Some 0
   \<and> compare_version (3, - 1, 0) 2 0 0
   \<and> \<not> RuntimeLiblxcVersionAtLeast ''3.x.0'' 2 0 0"
  by code_simp

text \<open>
  C3 (as amended). For a version that is not a development version and whose leading part
  does not parse as an integer, the answer is false for every requested triple.
\<close>

theorem unparseable_leading_fails:
  assumes "\<not> is_devel (version_parts version)"
    and "Atoi (version_parts version ! 0) = None"
  shows "\<not> RuntimeLiblxcVersionAtLeast version major minor micro"
  using assms version_parts_nonempty [of version]
  by (intro atleast_parse_failure [where i = 0]) simp_all

theorem unparseable_leading_fails_witness:
  "\<not> is_devel (version_parts ''x.1.0'')
   \<and> Atoi (version_parts ''x.1.0'' ! 0) = None
   \<and> \<not> RuntimeLiblxcVersionAtLeast ''x.1.0'' 0 0 0"
proof -
  have d: "\<not> is_devel (version_parts ''x.1.0'')" by code_simp
  have f: "Atoi (version_parts ''x.1.0'' ! 0) = None" by code_simp
  show ?thesis
    using d f unparseable_leading_fails [OF d f, of 0 0 0] by simp
qed

text \<open>
  C3 (as stated) fails at \<open>x.0.0-devel\<close>: the leading part \<open>x\<close> does not parse, and the
  answer is true, because the test for a development version comes before the parsing.
\<close>

theorem fail_closed_counterexample:
  "version_parts ''x.0.0-devel'' = [''x'', ''0'', ''0-devel'']
   \<and> Atoi (version_parts ''x.0.0-devel'' ! 0) = None
   \<and> RuntimeLiblxcVersionAtLeast ''x.0.0-devel'' 1 0 0"
  by code_simp

section \<open>Development versions and the suffix after a tilde\<close>


lemma HasPrefix_hd: "old \<noteq> [] \<Longrightarrow> HasPrefix (c # cs) old \<Longrightarrow> c = hd old"
  by (cases old) (auto simp: HasPrefix_def)

lemma Replace1_absent_char: "old \<noteq> [] \<Longrightarrow> hd old \<notin> set s \<Longrightarrow> Replace1 s old new = s"
  by (induction s) (auto dest: HasPrefix_hd)

lemma Replace1_self: "old \<noteq> [] \<Longrightarrow> Replace1 old old new = new"
  by (cases old) (auto simp: HasPrefix_def)

lemma Replace1_at_end:
  "old \<noteq> [] \<Longrightarrow> hd old \<notin> set p \<Longrightarrow> Replace1 (p @ old) old new = p @ new"
  by (induction p) (auto dest: HasPrefix_hd simp: Replace1_self)

lemma numeric_chars:
  assumes "numeric x"
  shows "CHR ''~'' \<notin> set x" and "CHR '' '' \<notin> set x" and "CHR ''.'' \<notin> set x"
    and "CHR ''-'' \<notin> set x"
  using assms by (auto simp: numeric_def list_all_iff is_digit_def)

lemma strip_version_devel_suffix:
  assumes "CHR ''~'' \<notin> set core" and "CHR '' '' \<notin> set core"
  shows "strip_version (core @ ''-devel'') = core @ ''-devel''"
    and "strip_version (core @ '' (devel)'') = core @ ''-devel''"
proof -
  have "Split (core @ ''-devel'') (CHR ''~'') = [core @ ''-devel'']"
    using assms(1) by (intro Split_absent) simp
  moreover have "Replace1 (core @ ''-devel'') '' (devel)'' ''-devel'' = core @ ''-devel''"
    using assms(2) by (intro Replace1_absent_char) simp_all
  ultimately show "strip_version (core @ ''-devel'') = core @ ''-devel''"
    by (simp add: strip_version_def)
  have "Split (core @ '' (devel)'') (CHR ''~'') = [core @ '' (devel)'']"
    using assms(1) by (intro Split_absent) simp
  moreover have "Replace1 (core @ '' (devel)'') '' (devel)'' ''-devel'' = core @ ''-devel''"
    using assms(2) by (intro Replace1_at_end) simp_all
  ultimately show "strip_version (core @ '' (devel)'') = core @ ''-devel''"
    by (simp add: strip_version_def)
qed

lemma is_devel_last:
  "CHR ''-'' \<notin> set z \<Longrightarrow> is_devel (front @ [z @ ''-devel''])"
proof -
  assume z: "CHR ''-'' \<notin> set z"
  have "Split (z @ CHR ''-'' # ''devel'') (CHR ''-'') = z # Split ''devel'' (CHR ''-'')"
    using z by (rule Split_first)
  then have "Split (z @ ''-devel'') (CHR ''-'') = [z, ''devel'']" by simp
  then show ?thesis by (simp add: is_devel_def)
qed


lemma version_parts_core:
  assumes "numeric x" and "numeric y" and "CHR ''~'' \<notin> set t" and "CHR '' '' \<notin> set t"
    and "CHR ''.'' \<notin> set t" and "strip_version (x @ ''.'' @ y @ ''.'' @ t') = x @ ''.'' @ y @ ''.'' @ t"
  shows "version_parts (x @ ''.'' @ y @ ''.'' @ t') = [x, y, t]"
proof -
  have "Split (x @ CHR ''.'' # (y @ CHR ''.'' # t)) (CHR ''.'') = x # Split (y @ CHR ''.'' # t) (CHR ''.'')"
    using numeric_chars(3) [OF assms(1)] by (rule Split_first)
  also have "Split (y @ CHR ''.'' # t) (CHR ''.'') = y # Split t (CHR ''.'')"
    using numeric_chars(3) [OF assms(2)] by (rule Split_first)
  also have "Split t (CHR ''.'') = [t]"
    using assms(5) by (rule Split_absent)
  finally show ?thesis using assms(6) by (simp add: version_parts_def)
qed

text \<open>
  C4. For numeric components \<open>x\<close>, \<open>y\<close>, \<open>z\<close> the strings \<open>x.y.z-devel\<close> and
  \<open>x.y.z (devel)\<close> get the same answer for every requested triple, and that answer is true.
\<close>

theorem devel_forms_agree:
  assumes "numeric x" and "numeric y" and "numeric z"
  shows "RuntimeLiblxcVersionAtLeast (x @ ''.'' @ y @ ''.'' @ z @ ''-devel'') major minor micro
           = RuntimeLiblxcVersionAtLeast (x @ ''.'' @ y @ ''.'' @ z @ '' (devel)'') major minor micro
       \<and> RuntimeLiblxcVersionAtLeast (x @ ''.'' @ y @ ''.'' @ z @ ''-devel'') major minor micro
       \<and> RuntimeLiblxcVersionAtLeast (x @ ''.'' @ y @ ''.'' @ z @ '' (devel)'') major minor micro"
proof -
  let ?core = "x @ ''.'' @ y @ ''.'' @ z"
  have tilde: "CHR ''~'' \<notin> set ?core" and space: "CHR '' '' \<notin> set ?core"
    using assms by (auto dest: numeric_chars)
  have s1: "strip_version (?core @ ''-devel'') = ?core @ ''-devel''"
    and s2: "strip_version (?core @ '' (devel)'') = ?core @ ''-devel''"
    using strip_version_devel_suffix [OF tilde space] by simp_all
  have t: "CHR ''~'' \<notin> set (z @ ''-devel'')" "CHR '' '' \<notin> set (z @ ''-devel'')"
    "CHR ''.'' \<notin> set (z @ ''-devel'')"
    using assms(3) by (auto dest: numeric_chars)
  have p1: "version_parts (x @ ''.'' @ y @ ''.'' @ z @ ''-devel'') = [x, y, z @ ''-devel'']"
    using s1 by (intro version_parts_core [OF assms(1,2) t]) simp
  have p2: "version_parts (x @ ''.'' @ y @ ''.'' @ z @ '' (devel)'') = [x, y, z @ ''-devel'']"
    using s2 by (intro version_parts_core [OF assms(1,2) t]) simp
  have d: "is_devel ([x, y] @ [z @ ''-devel''])"
    using numeric_chars(4) [OF assms(3)] by (rule is_devel_last)
  have a: "RuntimeLiblxcVersionAtLeast (x @ ''.'' @ y @ ''.'' @ z @ ''-devel'') major minor micro"
    using d p1 by (simp add: atleast_unfold)
  have b: "RuntimeLiblxcVersionAtLeast (x @ ''.'' @ y @ ''.'' @ z @ '' (devel)'') major minor micro"
    using d p2 by (simp add: atleast_unfold)
  from a b show ?thesis by simp
qed

theorem devel_forms_agree_witness:
  "numeric ''5'' \<and> numeric ''0''
   \<and> RuntimeLiblxcVersionAtLeast ''5.0.0-devel'' 99 99 99
   \<and> RuntimeLiblxcVersionAtLeast ''5.0.0 (devel)'' 99 99 99"
proof -
  have h5: "numeric ''5''" by code_simp
  have h0: "numeric ''0''" by code_simp
  show ?thesis
    using h5 h0 devel_forms_agree [OF h5 h0 h0, of 99 99 99] by simp
qed



section \<open>The display form of the version\<close>












section \<open>Handles, listings and the extension query\<close>

lemma NewContainer_chosen:
  "NewContainer rt name lxcpath w =
     (case lxc_container_new rt name (chosen_path lxcpath) w of
        (None, w') \<Rightarrow> (Inl ErrNewFailed, w')
      | (Some p, w') \<Rightarrow> (Inr \<lparr>container = p, verbosity = Quiet\<rparr>, w'))"
  by (auto simp: NewContainer_def chosen_path_def)

lemma ContainerNames_chosen:
  "ContainerNames rt lxcpath w =
     (case list_all_containers rt (chosen_path lxcpath) w of
        ((count, cnames), w') \<Rightarrow>
          if count < 1 then ([], w') else (convertNArgs rt cnames count, w'))"
  by (auto simp: ContainerNames_def chosen_path_def)

lemma DefinedContainerNames_chosen:
  "DefinedContainerNames rt lxcpath w =
     (case list_defined_containers rt (chosen_path lxcpath) w of
        ((count, cnames), w') \<Rightarrow>
          if count < 1 then ([], w') else (convertNArgs rt cnames count, w'))"
  by (auto simp: DefinedContainerNames_def chosen_path_def)

lemma ActiveContainerNames_chosen:
  "ActiveContainerNames rt lxcpath w =
     (case list_active_containers rt (chosen_path lxcpath) w of
        ((count, cnames), w') \<Rightarrow>
          if count < 1 then ([], w') else (convertNArgs rt cnames count, w'))"
  by (auto simp: ActiveContainerNames_def chosen_path_def)

text \<open>
  C6. \<open>HasAPIExtension\<close> reads the version and asks the library about the extension only
  when the version is at least 3.1.0, continuing from the state the version call left. When
  it is not, the answer is false and the state is the one after the version call, whatever
  the extension query of the library would do (\<open>f\<close> stands for any such query): the query
  is not made.
\<close>

theorem extension_query_gated:
  "(\<not> RuntimeLiblxcVersionAtLeast (fst (Version rt w)) 3 1 0 \<longrightarrow>
      HasAPIExtension rt extension w = (False, snd (Version rt w))
      \<and> HasAPIExtension (rt\<lparr>go_lxc_has_api_extension := f\<rparr>) extension w
          = (False, snd (Version rt w)))
   \<and> (RuntimeLiblxcVersionAtLeast (fst (Version rt w)) 3 1 0 \<longrightarrow>
      HasAPIExtension rt extension w
        = go_lxc_has_api_extension rt extension (snd (Version rt w)))"
  by (auto simp: HasAPIExtension_def Version_def split: prod.splits)

theorem extension_query_gated_witness:
  "\<not> RuntimeLiblxcVersionAtLeast (fst (Version (demo_runtime ''3.0.9'') [])) 3 1 0
   \<and> HasAPIExtension (demo_runtime ''3.0.9'') ''seccomp_notify'' [] = (False, [''lxc_get_version''])
   \<and> RuntimeLiblxcVersionAtLeast (fst (Version (demo_runtime ''3.1.0'') [])) 3 1 0
   \<and> HasAPIExtension (demo_runtime ''3.1.0'') ''seccomp_notify'' []
       = (True, [''lxc_get_version'', ''go_lxc_has_api_extension''])"
proof -
  have h1: "\<not> RuntimeLiblxcVersionAtLeast (fst (Version (demo_runtime ''3.0.9'') [])) 3 1 0"
    by code_simp
  have v1: "snd (Version (demo_runtime ''3.0.9'') []) = [''lxc_get_version'']" by code_simp
  have h2: "RuntimeLiblxcVersionAtLeast (fst (Version (demo_runtime ''3.1.0'') [])) 3 1 0"
    by code_simp
  have v2: "go_lxc_has_api_extension (demo_runtime ''3.1.0'') ''seccomp_notify''
              (snd (Version (demo_runtime ''3.1.0'') []))
            = (True, [''lxc_get_version'', ''go_lxc_has_api_extension''])" by code_simp
  have r1: "HasAPIExtension (demo_runtime ''3.0.9'') ''seccomp_notify'' [] = (False, [''lxc_get_version''])"
    using extension_query_gated [of "demo_runtime ''3.0.9''" "[]" "''seccomp_notify''"] h1 v1
    by simp
  have r2: "HasAPIExtension (demo_runtime ''3.1.0'') ''seccomp_notify'' []
       = (True, [''lxc_get_version'', ''go_lxc_has_api_extension''])"
    using extension_query_gated [of "demo_runtime ''3.1.0''" "[]" "''seccomp_notify''"] h2 v2
    by simp
  from h1 r1 h2 r2 show ?thesis by blast
qed

text \<open>
  C7. For each of the three listings and any list of paths: when the library reports a
  count of zero or below, the names are the empty list, zero and negative counts alike;
  the functions have no error result.
\<close>

theorem names_empty_on_nonpositive_count:
  "(fst (fst (list_all_containers rt (chosen_path lxcpath) w)) \<le> 0 \<longrightarrow>
      ContainerNames rt lxcpath w = ([], snd (list_all_containers rt (chosen_path lxcpath) w)))
   \<and> (fst (fst (list_defined_containers rt (chosen_path lxcpath) w)) \<le> 0 \<longrightarrow>
      DefinedContainerNames rt lxcpath w
        = ([], snd (list_defined_containers rt (chosen_path lxcpath) w)))
   \<and> (fst (fst (list_active_containers rt (chosen_path lxcpath) w)) \<le> 0 \<longrightarrow>
      ActiveContainerNames rt lxcpath w
        = ([], snd (list_active_containers rt (chosen_path lxcpath) w)))"
  by (auto simp: ContainerNames_chosen DefinedContainerNames_chosen ActiveContainerNames_chosen
      split: prod.splits)

theorem names_empty_on_nonpositive_count_witness:
  "fst (fst (list_all_containers (demo_runtime ''3.1.0'') (chosen_path [''/p'']) [])) = - 1
   \<and> fst (fst (list_defined_containers (demo_runtime ''3.1.0'') (chosen_path [''/p'']) [])) = 0
   \<and> fst (fst (list_active_containers (demo_runtime ''3.1.0'') (chosen_path [''/p'']) [])) = - 7
   \<and> fst (ContainerNames (demo_runtime ''3.1.0'') [''/p''] []) = []
   \<and> fst (DefinedContainerNames (demo_runtime ''3.1.0'') [''/p''] []) = []
   \<and> fst (ActiveContainerNames (demo_runtime ''3.1.0'') [''/p''] []) = []"
proof -
  have a: "fst (fst (list_all_containers (demo_runtime ''3.1.0'') (chosen_path [''/p'']) [])) = - 1"
    by code_simp
  have b: "fst (fst (list_defined_containers (demo_runtime ''3.1.0'') (chosen_path [''/p'']) [])) = 0"
    by code_simp
  have c: "fst (fst (list_active_containers (demo_runtime ''3.1.0'') (chosen_path [''/p'']) [])) = - 7"
    by code_simp
  show ?thesis
    using a b c names_empty_on_nonpositive_count [of "demo_runtime ''3.1.0''" "[''/p'']" "[]"]
    by simp
qed

lemma created_Cons:
  "created (Inr c # rs) = c # created rs" "created (Inl e # rs) = created rs" "created [] = []"
  by (simp_all add: created_def)

lemma failed_Cons:
  "failed (Inr c # rs) = failed rs" "failed (Inl e # rs) = e # failed rs" "failed [] = []"
  by (simp_all add: failed_def)

lemma range_names_attempt:
  "range_names rt names lxcpath containers w =
     (containers @ created (fst (attempt_each rt names lxcpath w)),
      snd (attempt_each rt names lxcpath w))"
proof (induction names arbitrary: containers w)
  case Nil
  then show ?case by (simp add: created_Cons)
next
  case (Cons v vs)
  obtain r w' where step: "NewContainer rt v lxcpath w = (r, w')"
    by (cases "NewContainer rt v lxcpath w")
  show ?case
  proof (cases r)
    case (Inl e)
    with step Cons.IH [of containers w'] show ?thesis
      by (simp add: created_Cons split: prod.splits)
  next
    case (Inr c)
    with step Cons.IH [of "containers @ [c]" w'] show ?thesis
      by (simp add: created_Cons split: prod.splits)
  qed
qed

lemma attempt_each_length: "length (fst (attempt_each rt names lxcpath w)) = length names"
proof (induction names arbitrary: w)
  case Nil
  then show ?case by simp
next
  case (Cons v vs)
  obtain r w' where step: "NewContainer rt v lxcpath w = (r, w')"
    by (cases "NewContainer rt v lxcpath w")
  obtain rs w'' where rest: "attempt_each rt vs lxcpath w' = (rs, w'')"
    by (cases "attempt_each rt vs lxcpath w'")
  from Cons.IH [of w'] rest have "length rs = length vs" by simp
  with step rest show ?case by simp
qed

lemma created_failed_length: "length (created rs) + length (failed rs) = length rs"
proof (induction rs)
  case Nil
  then show ?case by (simp add: created_Cons failed_Cons)
next
  case (Cons r rs)
  then show ?case by (cases r) (simp_all add: created_Cons failed_Cons)
qed

lemma loop_from_listing:
  "(case listing of (names, w') \<Rightarrow> range_names rt names lxcpath [] w') =
     (created (fst (attempt_listed rt lxcpath listing)), snd (attempt_listed rt lxcpath listing))"
  by (cases listing) (simp add: range_names_attempt attempt_listed_def)

text \<open>
  C8. Each of the three handle lists is made of the handles of the successful creations,
  in the order of the names, creation being attempted once for every listed name in turn:
  a failure drops that name and the loop goes on, and the result has no error component.
  The handles and the failures together are as many as the names, so one failure among
  three names leaves two handles.
\<close>

theorem handle_lists_skip_failures:
  "Containers rt lxcpath w =
     (created (fst (attempt_listed rt lxcpath (ContainerNames rt lxcpath w))),
      snd (attempt_listed rt lxcpath (ContainerNames rt lxcpath w)))
   \<and> DefinedContainers rt lxcpath w =
     (created (fst (attempt_listed rt lxcpath (DefinedContainerNames rt lxcpath w))),
      snd (attempt_listed rt lxcpath (DefinedContainerNames rt lxcpath w)))
   \<and> ActiveContainers rt lxcpath w =
     (created (fst (attempt_listed rt lxcpath (ActiveContainerNames rt lxcpath w))),
      snd (attempt_listed rt lxcpath (ActiveContainerNames rt lxcpath w)))
   \<and> length (fst (attempt_listed rt lxcpath listing)) = length (fst listing)
   \<and> length (created (fst (attempt_listed rt lxcpath listing)))
        + length (failed (fst (attempt_listed rt lxcpath listing))) = length (fst listing)
   \<and> (length (fst listing) = 3 \<and> length (failed (fst (attempt_listed rt lxcpath listing))) = 1
        \<longrightarrow> length (created (fst (attempt_listed rt lxcpath listing))) = 2)"
proof -
  have a: "Containers rt lxcpath w =
     (created (fst (attempt_listed rt lxcpath (ContainerNames rt lxcpath w))),
      snd (attempt_listed rt lxcpath (ContainerNames rt lxcpath w)))"
    by (simp only: Containers_def loop_from_listing)
  have b: "DefinedContainers rt lxcpath w =
     (created (fst (attempt_listed rt lxcpath (DefinedContainerNames rt lxcpath w))),
      snd (attempt_listed rt lxcpath (DefinedContainerNames rt lxcpath w)))"
    by (simp only: DefinedContainers_def loop_from_listing)
  have c: "ActiveContainers rt lxcpath w =
     (created (fst (attempt_listed rt lxcpath (ActiveContainerNames rt lxcpath w))),
      snd (attempt_listed rt lxcpath (ActiveContainerNames rt lxcpath w)))"
    by (simp only: ActiveContainers_def loop_from_listing)
  have len: "length (fst (attempt_listed rt lxcpath listing)) = length (fst listing)"
    by (simp add: attempt_listed_def attempt_each_length)
  have cnt: "length (created (fst (attempt_listed rt lxcpath listing)))
        + length (failed (fst (attempt_listed rt lxcpath listing))) = length (fst listing)"
    using created_failed_length [of "fst (attempt_listed rt lxcpath listing)"] len by simp
  have three: "length (fst listing) = 3 \<and> length (failed (fst (attempt_listed rt lxcpath listing))) = 1
        \<longrightarrow> length (created (fst (attempt_listed rt lxcpath listing))) = 2"
    using cnt by arith
  from a b c len cnt three show ?thesis by blast
qed

theorem handle_lists_skip_failures_witness:
  "fst (ContainerNames (demo_runtime ''3.1.0'') [] []) = [''a'', ''b'', ''c'']
   \<and> length (failed (fst (attempt_listed (demo_runtime ''3.1.0'') []
               (ContainerNames (demo_runtime ''3.1.0'') [] [])))) = 1
   \<and> length (fst (Containers (demo_runtime ''3.1.0'') [] [])) = 2
   \<and> snd (Containers (demo_runtime ''3.1.0'') [] [])
        = [''list_all_containers'', ''lxc_container_new a'', ''lxc_container_new b'',
           ''lxc_container_new c'']"
proof -
  let ?rt = "demo_runtime ''3.1.0''"
  let ?listing = "ContainerNames ?rt [] []"
  have n: "fst ?listing = [''a'', ''b'', ''c'']" by code_simp
  have f: "length (failed (fst (attempt_listed ?rt [] ?listing))) = 1" by code_simp
  have w: "snd (attempt_listed ?rt [] ?listing)
        = [''list_all_containers'', ''lxc_container_new a'', ''lxc_container_new b'',
           ''lxc_container_new c'']" by code_simp
  have three: "length (fst ?listing) = 3" using n by simp
  show ?thesis
    using n f w three handle_lists_skip_failures [of ?rt "[]" "[]" ?listing]
    by simp
qed

text \<open>
  C9. With two paths or more, \<open>NewContainer\<close> and each of the three listings behave as
  with no path at all: each hands the library no path (\<open>None\<close>, its default), whatever the
  paths are, and gives the result it gives for the empty list of paths. With exactly one
  path, each of the four hands that path on.
\<close>

theorem extra_paths_ignored:
  assumes "2 \<le> length lxcpath"
  shows "chosen_path lxcpath = None
       \<and> NewContainer rt name lxcpath w = NewContainer rt name [] w
       \<and> ContainerNames rt lxcpath w = ContainerNames rt [] w
       \<and> DefinedContainerNames rt lxcpath w = DefinedContainerNames rt [] w
       \<and> ActiveContainerNames rt lxcpath w = ActiveContainerNames rt [] w
       \<and> NewContainer rt name lxcpath w =
           (case lxc_container_new rt name None w of
              (None, w') \<Rightarrow> (Inl ErrNewFailed, w')
            | (Some p, w') \<Rightarrow> (Inr \<lparr>container = p, verbosity = Quiet\<rparr>, w'))
       \<and> NewContainer rt name [path] w =
           (case lxc_container_new rt name (Some path) w of
              (None, w') \<Rightarrow> (Inl ErrNewFailed, w')
            | (Some p, w') \<Rightarrow> (Inr \<lparr>container = p, verbosity = Quiet\<rparr>, w'))
       \<and> ContainerNames rt lxcpath w =
           (case list_all_containers rt None w of
              ((count, cnames), w') \<Rightarrow>
                if count < 1 then ([], w') else (convertNArgs rt cnames count, w'))
       \<and> ContainerNames rt [path] w =
           (case list_all_containers rt (Some path) w of
              ((count, cnames), w') \<Rightarrow>
                if count < 1 then ([], w') else (convertNArgs rt cnames count, w'))
       \<and> DefinedContainerNames rt lxcpath w =
           (case list_defined_containers rt None w of
              ((count, cnames), w') \<Rightarrow>
                if count < 1 then ([], w') else (convertNArgs rt cnames count, w'))
       \<and> DefinedContainerNames rt [path] w =
           (case list_defined_containers rt (Some path) w of
              ((count, cnames), w') \<Rightarrow>
                if count < 1 then ([], w') else (convertNArgs rt cnames count, w'))
       \<and> ActiveContainerNames rt lxcpath w =
           (case list_active_containers rt None w of
              ((count, cnames), w') \<Rightarrow>
                if count < 1 then ([], w') else (convertNArgs rt cnames count, w'))
       \<and> ActiveContainerNames rt [path] w =
           (case list_active_containers rt (Some path) w of
              ((count, cnames), w') \<Rightarrow>
                if count < 1 then ([], w') else (convertNArgs rt cnames count, w'))"
proof -
  from assms have none: "chosen_path lxcpath = None" by (simp add: chosen_path_def)
  have empty: "chosen_path [] = None" by (simp add: chosen_path_def)
  have one: "chosen_path [path] = Some path" by (simp add: chosen_path_def)
  have a: "NewContainer rt name lxcpath w = NewContainer rt name [] w"
    by (simp only: NewContainer_chosen none empty)
  have b: "ContainerNames rt lxcpath w = ContainerNames rt [] w"
    by (simp only: ContainerNames_chosen none empty)
  have c: "DefinedContainerNames rt lxcpath w = DefinedContainerNames rt [] w"
    by (simp only: DefinedContainerNames_chosen none empty)
  have d: "ActiveContainerNames rt lxcpath w = ActiveContainerNames rt [] w"
    by (simp only: ActiveContainerNames_chosen none empty)
  have e: "NewContainer rt name lxcpath w =
           (case lxc_container_new rt name None w of
              (None, w') \<Rightarrow> (Inl ErrNewFailed, w')
            | (Some p, w') \<Rightarrow> (Inr \<lparr>container = p, verbosity = Quiet\<rparr>, w'))"
    by (simp only: NewContainer_chosen none)
  have f: "NewContainer rt name [path] w =
           (case lxc_container_new rt name (Some path) w of
              (None, w') \<Rightarrow> (Inl ErrNewFailed, w')
            | (Some p, w') \<Rightarrow> (Inr \<lparr>container = p, verbosity = Quiet\<rparr>, w'))"
    by (simp only: NewContainer_chosen one)
  have g: "ContainerNames rt lxcpath w =
           (case list_all_containers rt None w of
              ((count, cnames), w') \<Rightarrow>
                if count < 1 then ([], w') else (convertNArgs rt cnames count, w'))"
    by (simp only: ContainerNames_chosen none)
  have h: "ContainerNames rt [path] w =
           (case list_all_containers rt (Some path) w of
              ((count, cnames), w') \<Rightarrow>
                if count < 1 then ([], w') else (convertNArgs rt cnames count, w'))"
    by (simp only: ContainerNames_chosen one)
  have i: "DefinedContainerNames rt lxcpath w =
           (case list_defined_containers rt None w of
              ((count, cnames), w') \<Rightarrow>
                if count < 1 then ([], w') else (convertNArgs rt cnames count, w'))"
    by (simp only: DefinedContainerNames_chosen none)
  have j: "DefinedContainerNames rt [path] w =
           (case list_defined_containers rt (Some path) w of
              ((count, cnames), w') \<Rightarrow>
                if count < 1 then ([], w') else (convertNArgs rt cnames count, w'))"
    by (simp only: DefinedContainerNames_chosen one)
  have k: "ActiveContainerNames rt lxcpath w =
           (case list_active_containers rt None w of
              ((count, cnames), w') \<Rightarrow>
                if count < 1 then ([], w') else (convertNArgs rt cnames count, w'))"
    by (simp only: ActiveContainerNames_chosen none)
  have l: "ActiveContainerNames rt [path] w =
           (case list_active_containers rt (Some path) w of
              ((count, cnames), w') \<Rightarrow>
                if count < 1 then ([], w') else (convertNArgs rt cnames count, w'))"
    by (simp only: ActiveContainerNames_chosen one)
  show ?thesis
    by (intro conjI) (rule none a b c d e f g h i j k l)+
qed

theorem extra_paths_ignored_witness:
  "(2::nat) \<le> length [''/p'', ''/q'']
   \<and> ContainerNames (demo_runtime ''3.1.0'') [''/p'', ''/q''] []
       = ([''a'', ''b'', ''c''], [''list_all_containers''])
   \<and> DefinedContainerNames (demo_runtime ''3.1.0'') [''/p'', ''/q''] []
       = ([''a'', ''b'', ''c''], [''list_defined_containers''])
   \<and> ActiveContainerNames (demo_runtime ''3.1.0'') [''/p'', ''/q''] []
       = ([''a'', ''b'', ''c''], [''list_active_containers''])
   \<and> NewContainer (demo_runtime ''3.1.0'') ''a'' [''/p'', ''/q''] []
       = (Inr \<lparr>container = 1, verbosity = Quiet\<rparr>, [''lxc_container_new a''])
   \<and> ContainerNames (demo_runtime ''3.1.0'') [''/p''] [] = ([], [''list_all_containers''])
   \<and> DefinedContainerNames (demo_runtime ''3.1.0'') [''/p''] []
       = ([], [''list_defined_containers''])
   \<and> ActiveContainerNames (demo_runtime ''3.1.0'') [''/p''] []
       = ([], [''list_active_containers''])"
proof -
  let ?rt = "demo_runtime ''3.1.0''"
  have h: "(2::nat) \<le> length [''/p'', ''/q'']" by simp
  have n1: "ContainerNames ?rt [] [] = ([''a'', ''b'', ''c''], [''list_all_containers''])"
    by code_simp
  have n2: "DefinedContainerNames ?rt [] []
       = ([''a'', ''b'', ''c''], [''list_defined_containers''])" by code_simp
  have n3: "ActiveContainerNames ?rt [] []
       = ([''a'', ''b'', ''c''], [''list_active_containers''])" by code_simp
  have n4: "NewContainer ?rt ''a'' [] []
       = (Inr \<lparr>container = 1, verbosity = Quiet\<rparr>, [''lxc_container_new a''])"
    by code_simp
  have o1: "ContainerNames ?rt [''/p''] [] = ([], [''list_all_containers''])" by code_simp
  have o2: "DefinedContainerNames ?rt [''/p''] [] = ([], [''list_defined_containers''])"
    by code_simp
  have o3: "ActiveContainerNames ?rt [''/p''] [] = ([], [''list_active_containers''])"
    by code_simp
  note t = extra_paths_ignored [OF h, of ?rt "''a''" "[]"]
  have r1: "ContainerNames ?rt [''/p'', ''/q''] [] = ContainerNames ?rt [] []"
    using t by blast
  have r2: "DefinedContainerNames ?rt [''/p'', ''/q''] [] = DefinedContainerNames ?rt [] []"
    using t by blast
  have r3: "ActiveContainerNames ?rt [''/p'', ''/q''] [] = ActiveContainerNames ?rt [] []"
    using t by blast
  have r4: "NewContainer ?rt ''a'' [''/p'', ''/q''] [] = NewContainer ?rt ''a'' [] []"
    using t by blast
  show ?thesis
    using h o1 o2 o3 by (simp only: r1 r2 r3 r4 n1 n2 n3 n4)
qed

end
